theory Spec2Isabelle
  imports Main
begin

section \<open>Python values\<close>

text \<open>
  The tool arguments and the upstream payloads are the Python objects that a JSON parser
  produces. A Python \<open>str\<close> is modelled as a \<open>string\<close> whose characters are the code
  points of the \<open>str\<close>; this covers every \<open>str\<close> whose code points are below 256. A Python
  \<open>float\<close> is carried as its \<open>repr\<close> (such as \<open>1.5\<close>, \<open>0.0\<close>, \<open>-0.0\<close>, \<open>nan\<close>, \<open>inf\<close>),
  which is all the program observes of it. A Python \<open>dict\<close> is an association list in
  insertion order.
\<close>

datatype pyval =
    PyNone
  | PyBool bool
  | PyInt int
  | PyFloat string
  | PyStr string
  | PyList "pyval list"
  | PyDict "(string \<times> pyval) list"

type_synonym dict = "(string \<times> pyval) list"

datatype error =
    ValueError string
  | KeyError string
  | ConnectError
  | TimeoutException
  | HTTPStatusError nat
  | JSONDecodeError
  | OtherException string

text \<open>Truthiness: \<open>bool(v)\<close>. The condition \<open>not v\<close> of the source is \<open>\<not> truthy v\<close>.\<close>

fun truthy :: "pyval \<Rightarrow> bool" where
  "truthy PyNone = False"
| "truthy (PyBool b) = b"
| "truthy (PyInt i) = (i \<noteq> 0)"
| "truthy (PyFloat r) = (r \<noteq> ''0.0'' \<and> r \<noteq> ''-0.0'')"
| "truthy (PyStr s) = (s \<noteq> [])"
| "truthy (PyList xs) = (xs \<noteq> [])"
| "truthy (PyDict kvs) = (kvs \<noteq> [])"

subsection \<open>Dictionary operations\<close>

text \<open>\<open>d[key]\<close> raises \<open>KeyError\<close> on a missing key.\<close>

definition dict_getitem :: "dict \<Rightarrow> string \<Rightarrow> error + pyval" where
  "dict_getitem d key = (case map_of d key of None \<Rightarrow> Inl (KeyError key) | Some v \<Rightarrow> Inr v)"

text \<open>\<open>d[key] = v\<close> replaces the value of a present key in place and appends a new key.\<close>

fun dict_setitem :: "dict \<Rightarrow> string \<Rightarrow> pyval \<Rightarrow> dict" where
  "dict_setitem [] key v = [(key, v)]"
| "dict_setitem ((k, w) # d) key v =
     (if k = key then (k, v) # d else (k, w) # dict_setitem d key v)"

definition dict_keys :: "dict \<Rightarrow> string list" where
  "dict_keys d = map fst d"

subsection \<open>Decimal and hexadecimal digits\<close>

definition digit_chars :: string where
  "digit_chars = ''0123456789''"

fun str_nat :: "nat \<Rightarrow> string" where
  "str_nat n = (if n < 10 then [digit_chars ! n] else str_nat (n div 10) @ [digit_chars ! (n mod 10)])"

declare str_nat.simps [simp del]

definition str_int :: "int \<Rightarrow> string" where
  "str_int i = (if i < 0 then CHR ''-'' # str_nat (nat (- i)) else str_nat (nat i))"

definition hex_upper :: string where
  "hex_upper = ''0123456789ABCDEF''"

definition hex_lower :: string where
  "hex_lower = ''0123456789abcdef''"

text \<open>The two hexadecimal digits of a code point below 256.\<close>

definition hex2 :: "string \<Rightarrow> char \<Rightarrow> string" where
  "hex2 digits c = [digits ! (of_char c div 16), digits ! (of_char c mod 16)]"

text \<open>\<open>sep.join(parts)\<close>.\<close>

fun join :: "string \<Rightarrow> string list \<Rightarrow> string" where
  "join sep [] = []"
| "join sep [x] = x"
| "join sep (x # y # ys) = x @ sep @ join sep (y # ys)"

subsection \<open>\<open>str\<close> and \<open>repr\<close>\<close>

text \<open>
  \<open>repr\<close> of a \<open>str\<close>: single quotes unless the text has a single quote and no double
  quote; the quote and the backslash are escaped, tab, newline and carriage return get
  their short escapes, and every other character that is not printable is written
  \<open>\xhh\<close>. Below 256 the characters that are not printable are the controls (below 32,
  and 127 to 159), the no-break space 160 and the soft hyphen 173.
\<close>

definition repr_quote :: "string \<Rightarrow> char" where
  "repr_quote s =
     (if CHR 0x27 \<in> set s \<and> CHR 0x22 \<notin> set s then CHR 0x22 else CHR 0x27)"

definition repr_char :: "char \<Rightarrow> char \<Rightarrow> string" where
  "repr_char q c =
     (let n = (of_char c :: nat) in
      if c = q \<or> c = CHR 0x5C then [CHR 0x5C, c]
      else if c = CHR 0x09 then [CHR 0x5C, CHR ''t'']
      else if c = CHR 0x0A then [CHR 0x5C, CHR ''n'']
      else if c = CHR 0x0D then [CHR 0x5C, CHR ''r'']
      else if n < 32 \<or> n = 127 then [CHR 0x5C, CHR ''x''] @ hex2 hex_lower c
      else if n < 127 then [c]
      else if n \<le> 160 \<or> n = 173 then [CHR 0x5C, CHR ''x''] @ hex2 hex_lower c
      else [c])"

definition repr_str :: "string \<Rightarrow> string" where
  "repr_str s = (let q = repr_quote s in [q] @ concat (map (repr_char q) s) @ [q])"

fun py_repr :: "pyval \<Rightarrow> string"
  and py_repr_list :: "pyval list \<Rightarrow> string list"
  and py_repr_items :: "(string \<times> pyval) list \<Rightarrow> string list" where
  "py_repr PyNone = ''None''"
| "py_repr (PyBool b) = (if b then ''True'' else ''False'')"
| "py_repr (PyInt i) = str_int i"
| "py_repr (PyFloat r) = r"
| "py_repr (PyStr s) = repr_str s"
| "py_repr (PyList xs) = ''['' @ join '', '' (py_repr_list xs) @ '']''"
| "py_repr (PyDict kvs) = ''{'' @ join '', '' (py_repr_items kvs) @ ''}''"
| "py_repr_list [] = []"
| "py_repr_list (x # xs) = py_repr x # py_repr_list xs"
| "py_repr_items [] = []"
| "py_repr_items ((k, v) # kvs) = (repr_str k @ '': '' @ py_repr v) # py_repr_items kvs"

text \<open>\<open>str(v)\<close>, also what an f-string writes for \<open>{v}\<close>: the text itself for a \<open>str\<close>,
  the \<open>repr\<close> for everything else.\<close>

fun py_str :: "pyval \<Rightarrow> string" where
  "py_str (PyStr s) = s"
| "py_str v = py_repr v"

subsection \<open>\<open>json.dumps\<close>\<close>

text \<open>
  \<open>json.dumps\<close> with its defaults: separators \<open>, \<close> and \<open>: \<close>, \<open>ensure_ascii\<close> on (every
  character outside the printable ASCII range is written \<open>\uXXXX\<close>), and the non-finite
  floats written \<open>NaN\<close>, \<open>Infinity\<close>, \<open>-Infinity\<close>.
\<close>

definition json_escape_char :: "char \<Rightarrow> string" where
  "json_escape_char c =
     (let n = (of_char c :: nat) in
      if c = CHR 0x22 then [CHR 0x5C, CHR 0x22]
      else if c = CHR 0x5C then [CHR 0x5C, CHR 0x5C]
      else if c = CHR 0x08 then [CHR 0x5C, CHR ''b'']
      else if c = CHR 0x0C then [CHR 0x5C, CHR ''f'']
      else if c = CHR 0x0A then [CHR 0x5C, CHR ''n'']
      else if c = CHR 0x0D then [CHR 0x5C, CHR ''r'']
      else if c = CHR 0x09 then [CHR 0x5C, CHR ''t'']
      else if 32 \<le> n \<and> n \<le> 126 then [c]
      else [CHR 0x5C, CHR ''u'', CHR ''0'', CHR ''0''] @ hex2 hex_lower c)"

definition json_string :: "string \<Rightarrow> string" where
  "json_string s = [CHR 0x22] @ concat (map json_escape_char s) @ [CHR 0x22]"

definition json_float :: "string \<Rightarrow> string" where
  "json_float r =
     (if r = ''nan'' then ''NaN''
      else if r = ''inf'' then ''Infinity''
      else if r = ''-inf'' then ''-Infinity''
      else r)"

fun json_dumps :: "pyval \<Rightarrow> string"
  and json_dumps_list :: "pyval list \<Rightarrow> string list"
  and json_dumps_items :: "(string \<times> pyval) list \<Rightarrow> string list" where
  "json_dumps PyNone = ''null''"
| "json_dumps (PyBool b) = (if b then ''true'' else ''false'')"
| "json_dumps (PyInt i) = str_int i"
| "json_dumps (PyFloat r) = json_float r"
| "json_dumps (PyStr s) = json_string s"
| "json_dumps (PyList xs) = ''['' @ join '', '' (json_dumps_list xs) @ '']''"
| "json_dumps (PyDict kvs) = ''{'' @ join '', '' (json_dumps_items kvs) @ ''}''"
| "json_dumps_list [] = []"
| "json_dumps_list (x # xs) = json_dumps x # json_dumps_list xs"
| "json_dumps_items [] = []"
| "json_dumps_items ((k, v) # kvs) = (json_string k @ '': '' @ json_dumps v) # json_dumps_items kvs"

section \<open>\<open>urllib.parse\<close>\<close>

text \<open>
  \<open>quote\<close> encodes the text as UTF-8 and writes every byte that is not an unreserved
  character (nor in \<open>safe\<close>) as \<open>%XX\<close>. \<open>quote_plus\<close> also writes a space as \<open>+\<close>.
  \<open>urlencode\<close> on a mapping joins \<open>quote_plus(str(k)) = quote_plus(str(v))\<close> with \<open>&\<close>,
  in the order of the mapping.
\<close>

definition ALWAYS_SAFE :: string where
  "ALWAYS_SAFE = ''ABCDEFGHIJKLMNOPQRSTUVWXYZabcdefghijklmnopqrstuvwxyz0123456789_.-~''"

definition utf8_char :: "char \<Rightarrow> string" where
  "utf8_char c =
     (let n = (of_char c :: nat) in
      if n < 128 then [c] else [char_of (192 + n div 64), char_of (128 + n mod 64)])"

definition utf8_encode :: "string \<Rightarrow> string" where
  "utf8_encode s = concat (map utf8_char s)"

definition quote_byte :: "string \<Rightarrow> char \<Rightarrow> string" where
  "quote_byte safe b =
     (if b \<in> set ALWAYS_SAFE \<or> b \<in> set safe then [b] else CHR ''%'' # hex2 hex_upper b)"

definition quote :: "string \<Rightarrow> string \<Rightarrow> string" where
  "quote s safe = concat (map (quote_byte safe) (utf8_encode s))"

definition quote_plus :: "string \<Rightarrow> string \<Rightarrow> string" where
  "quote_plus s safe =
     (if CHR '' '' \<notin> set s then quote s safe
      else map (\<lambda>c. if c = CHR '' '' then CHR ''+'' else c) (quote s (safe @ '' '')))"

definition urlencode :: "dict \<Rightarrow> string" where
  "urlencode query =
     join ''&'' (map (\<lambda>(k, v). quote_plus k [] @ ''='' @ quote_plus (py_str v) []) query)"

section \<open>The upstream services\<close>

text \<open>
  An HTTP GET is a request sent to the outside world. The world is a function from the
  request to what \<open>client.get\<close> does with it: it raises (connection failure, timeout), or
  it returns a response with a status code and a body that \<open>response.json()\<close> parses or
  rejects. Every function that talks to the world also returns the requests it sent.
\<close>

record request =
  req_url :: string
  req_headers :: "(string \<times> string) list"
  req_timeout :: nat

record response =
  status_code :: nat
  json_body :: "error + pyval"

type_synonym client = "request \<Rightarrow> error + response"

text \<open>The two process-wide keys, set by \<open>main\<close> before the server runs.\<close>

record config =
  API_KEY :: string
  DEFI_API_KEY :: string

definition API_BASE :: string where
  "API_BASE = ''pro-api.coinmarketcap.com''"

definition raise_for_status :: "response \<Rightarrow> error + response" where
  "raise_for_status r =
     (if 200 \<le> status_code r \<and> status_code r \<le> 299 then Inr r
      else Inl (HTTPStatusError (status_code r)))"

text \<open>The body of the three \<open>try\<close> blocks; \<open>except Exception: return None\<close> is the
  \<open>Inl\<close> case of each step.\<close>

definition get_json :: "client \<Rightarrow> request \<Rightarrow> pyval" where
  "get_json client req =
     (case client req of
        Inl e \<Rightarrow> PyNone
      | Inr response \<Rightarrow>
          (case raise_for_status response of
             Inl e \<Rightarrow> PyNone
           | Inr r \<Rightarrow> (case json_body r of Inl e \<Rightarrow> PyNone | Inr v \<Rightarrow> v)))"

definition make_coinmarketcap_request :: "config \<Rightarrow> client \<Rightarrow> string \<Rightarrow> request list \<times> pyval" where
  "make_coinmarketcap_request cfg client url =
     (let headers = [(''Accepts'', ''application/json''), (''X-CMC_PRO_API_KEY'', API_KEY cfg)];
          req = \<lparr>req_url = url, req_headers = headers, req_timeout = 10\<rparr>
      in ([req], get_json client req))"

definition make_defillama_request :: "config \<Rightarrow> client \<Rightarrow> string \<Rightarrow> request list \<times> pyval" where
  "make_defillama_request cfg client url =
     (let headers = [(''accept'', ''*/*'')];
          req = \<lparr>req_url = url, req_headers = headers, req_timeout = 10\<rparr>
      in ([req], get_json client req))"

definition make_expand_network_request :: "config \<Rightarrow> client \<Rightarrow> string \<Rightarrow> request list \<times> pyval" where
  "make_expand_network_request cfg client url =
     (let headers = [(''accept'', ''*/*''), (''X-API-Key'', DEFI_API_KEY cfg)];
          req = \<lparr>req_url = url, req_headers = headers, req_timeout = 10\<rparr>
      in ([req], get_json client req))"

section \<open>The tool listing\<close>

text \<open>
  \<open>handle_list_tools\<close> returns the seven published tools in this order. Of each input
  schema the model keeps the names of the declared properties and the list of required
  ones; the descriptions and the property types are documentation only.
\<close>

record tool =
  tool_name :: string
  properties :: "string list"
  required :: "string list"

definition handle_list_tools :: "tool list" where
  "handle_list_tools =
     [\<lparr>tool_name = ''listing-coins'',
       properties = [''start'', ''limit'', ''price_min'', ''price_max'', ''market_cap_min'',
         ''market_cap_max'', ''volume_24h_min'', ''volume_24h_max'', ''circulating_supply_min'',
         ''circulating_supply_max'', ''percent_change_24h_min'', ''percent_change_24h_max'',
         ''convert'', ''convert_id'', ''sort'', ''sort_dir'', ''cryptocurrency_type'', ''tag'',
         ''aux''],
       required = []\<rparr>,
      \<lparr>tool_name = ''get-coin-info'',
       properties = [''id'', ''slug'', ''symbol'', ''address'', ''skip_invalid'', ''aux''],
       required = []\<rparr>,
      \<lparr>tool_name = ''get-coin-quotes'',
       properties = [''id'', ''slug'', ''symbol'', ''convert'', ''convert_id'', ''aux'',
         ''skip_invalid''],
       required = []\<rparr>,
      \<lparr>tool_name = ''get-protocols'',
       properties = [''id'', ''slug'', ''symbol'', ''convert'', ''convert_id'', ''aux'',
         ''skip_invalid''],
       required = []\<rparr>,
      \<lparr>tool_name = ''listing-protocols'',
       properties = [''id'', ''name'', ''symbol'', ''url'', ''description'', ''chain'', ''logo'',
         ''audits'', ''audit_note'', ''category'', ''chains'', ''twitter'', ''forkedFrom'',
         ''oracles'', ''listedAt'', ''methodology'', ''slug'', ''tvl'', ''chainTvls'',
         ''change_1h'', ''change_1d'', ''change_7d'', ''tokenBreakdowns'', ''mcap''],
       required = []\<rparr>,
      \<lparr>tool_name = ''get-protocol-tvl'',
       properties = [''protocol''],
       required = [''protocol'']\<rparr>,
      \<lparr>tool_name = ''get-apr'',
       properties = [''liquidStakingId''],
       required = [''liquidStakingId'']\<rparr>]"

section \<open>The dispatcher\<close>

datatype content = TextContent (content_type: string) (content_text: string)

text \<open>
  The loop \<open>for key in arguments.keys(): if key in condi_keys: request_data[key] =
  arguments[key]\<close>, with \<open>request_data\<close> passed along.
\<close>

fun filter_loop :: "string list \<Rightarrow> dict \<Rightarrow> string list \<Rightarrow> dict \<Rightarrow> error + dict" where
  "filter_loop condi_keys arguments [] request_data = Inr request_data"
| "filter_loop condi_keys arguments (key # keys) request_data =
     (if key \<in> set condi_keys then
        (case dict_getitem arguments key of
           Inl e \<Rightarrow> Inl e
         | Inr v \<Rightarrow> filter_loop condi_keys arguments keys (dict_setitem request_data key v))
      else filter_loop condi_keys arguments keys request_data)"

text \<open>\<open>request_data = {}\<close>, then the loop when \<open>arguments is not None\<close>.\<close>

definition collect_request_data :: "string list \<Rightarrow> dict option \<Rightarrow> error + dict" where
  "collect_request_data condi_keys arguments =
     (case arguments of
        None \<Rightarrow> Inr []
      | Some a \<Rightarrow> filter_loop condi_keys a (dict_keys a) [])"

text \<open>The \<open>condi_keys\<close> lists of the five branches that filter.\<close>

definition listing_coins_keys :: "string list" where
  "listing_coins_keys =
     [''start'', ''limit'', ''price_min'', ''price_max'', ''market_cap_min'', ''market_cap_max'',
      ''volume_24h_min'', ''volume_24h_max'', ''circulating_supply_min'',
      ''circulating_supply_max'', ''percent_change_24h_min'', ''percent_change_24h_max'',
      ''convert'', ''convert_id'', ''sort'', ''sort_dir'', ''cryptocurrency_type'', ''tag'',
      ''aux'']"

definition coin_info_keys :: "string list" where
  "coin_info_keys = [''id'', ''slug'', ''symbol'', ''address'', ''skip_invalid'', ''aux'']"

definition coin_quotes_keys :: "string list" where
  "coin_quotes_keys =
     [''id'', ''slug'', ''symbol'', ''convert'', ''convert_id'', ''aux'', ''skip_invalid'']"

definition protocol_tvl_keys :: "string list" where
  "protocol_tvl_keys = [''protocol'']"

definition apr_keys :: "string list" where
  "apr_keys = [''liquidStakingId'']"

text \<open>
  \<open>handle_call_tool\<close> returns the requests it sent and either the raised error or the
  content list. Each branch is written out as in the source.
\<close>

definition handle_call_tool ::
  "config \<Rightarrow> client \<Rightarrow> string \<Rightarrow> dict option \<Rightarrow> request list \<times> (error + content list)" where
  "handle_call_tool cfg client name arguments =
     (if name = ''listing-coins'' then
        (case collect_request_data listing_coins_keys arguments of
           Inl e \<Rightarrow> ([], Inl e)
         | Inr request_data \<Rightarrow>
             (let listing_url = ''https://'' @ API_BASE @ ''/v1/cryptocurrency/listings/latest?''
                    @ urlencode request_data;
                  (sent, listing_data) = make_coinmarketcap_request cfg client listing_url
              in if \<not> truthy listing_data
                 then (sent, Inr [TextContent ''text'' ''Failed to retrieve listing data''])
                 else (sent, Inr [TextContent ''text'' (json_dumps listing_data)])))
      else if name = ''get-coin-info'' then
        (case collect_request_data coin_info_keys arguments of
           Inl e \<Rightarrow> ([], Inl e)
         | Inr request_data \<Rightarrow>
             (let coin_info_url = ''https://'' @ API_BASE @ ''/v2/cryptocurrency/info?''
                    @ urlencode request_data;
                  (sent, coin_info_data) = make_coinmarketcap_request cfg client coin_info_url
              in if \<not> truthy coin_info_data
                 then (sent, Inr [TextContent ''text'' ''Failed to retrieve coin info data''])
                 else (sent, Inr [TextContent ''text'' (json_dumps coin_info_data)])))
      else if name = ''get-coin-quotes'' then
        (case collect_request_data coin_quotes_keys arguments of
           Inl e \<Rightarrow> ([], Inl e)
         | Inr request_data \<Rightarrow>
             (let coin_quotes_url = ''https://'' @ API_BASE @ ''/v2/cryptocurrency/quotes/latest?''
                    @ urlencode request_data;
                  (sent, coin_quotes_data) = make_coinmarketcap_request cfg client coin_quotes_url
              in if \<not> truthy coin_quotes_data
                 then (sent, Inr [TextContent ''text'' ''Failed to retrieve coin quotes data''])
                 else (sent, Inr [TextContent ''text'' (json_dumps coin_quotes_data)])))
      else if name = ''listing-protocols'' then
        (let protocols_url = ''https://api.llama.fi/protocols'';
             (sent, protocols_data) = make_defillama_request cfg client protocols_url
         in if \<not> truthy protocols_data
            then (sent, Inr [TextContent ''text'' ''Failed to retrieve protocols data''])
            else (sent, Inr [TextContent ''text'' (json_dumps protocols_data)]))
      else if name = ''get-protocol-tvl'' then
        (case collect_request_data protocol_tvl_keys arguments of
           Inl e \<Rightarrow> ([], Inl e)
         | Inr request_data \<Rightarrow>
             (case dict_getitem request_data ''protocol'' of
                Inl e \<Rightarrow> ([], Inl e)
              | Inr protocol \<Rightarrow>
                  (let protocols_url = ''https://api.llama.fi/tvl/'' @ py_str protocol;
                       (sent, protocols_data) = make_defillama_request cfg client protocols_url
                   in if \<not> truthy protocols_data
                      then (sent, Inr [TextContent ''text'' ''Failed to retrieve protocols tvl data''])
                      else (sent, Inr [TextContent ''text'' (json_dumps protocols_data)]))))
      else if name = ''get-apr'' then
        (case collect_request_data apr_keys arguments of
           Inl e \<Rightarrow> ([], Inl e)
         | Inr request_data \<Rightarrow>
             (case dict_getitem request_data ''liquidStakingId'' of
                Inl e \<Rightarrow> ([], Inl e)
              | Inr liquidStakingId \<Rightarrow>
                  (let protocols_url =
                         ''https://api.expand.network/liquidstaking/getapr?liquidStakingId=''
                         @ py_str liquidStakingId;
                       (sent, protocols_data) = make_expand_network_request cfg client protocols_url
                   in if \<not> truthy protocols_data
                      then (sent, Inr [TextContent ''text'' ''Failed to retrieve protocols APR data.''])
                      else (sent, Inr [TextContent ''text'' (json_dumps protocols_data)]))))
      else ([], Inl (ValueError (''Unknown tool: '' @ name))))"

text \<open>The URLs of the requests a call sent, and what the call returned or raised.\<close>

definition requested_urls :: "request list \<times> (error + content list) \<Rightarrow> string list" where
  "requested_urls r = map req_url (fst r)"

definition outcome :: "request list \<times> (error + content list) \<Rightarrow> error + content list" where
  "outcome r = snd r"

text \<open>The \<open>condi_keys\<close> list that the branch of a tool filters with; the branch of
  \<open>listing-protocols\<close> reads no argument, and an unknown name has no branch.\<close>

definition whitelist :: "string \<Rightarrow> string list" where
  "whitelist name =
     (if name = ''listing-coins'' then listing_coins_keys
      else if name = ''get-coin-info'' then coin_info_keys
      else if name = ''get-coin-quotes'' then coin_quotes_keys
      else if name = ''get-protocol-tvl'' then protocol_tvl_keys
      else if name = ''get-apr'' then apr_keys
      else [])"

text \<open>The text that the branch of a tool returns when \<open>not data\<close> holds.\<close>

definition failure_message :: "string \<Rightarrow> string" where
  "failure_message name =
     (if name = ''listing-coins'' then ''Failed to retrieve listing data''
      else if name = ''get-coin-info'' then ''Failed to retrieve coin info data''
      else if name = ''get-coin-quotes'' then ''Failed to retrieve coin quotes data''
      else if name = ''listing-protocols'' then ''Failed to retrieve protocols data''
      else if name = ''get-protocol-tvl'' then ''Failed to retrieve protocols tvl data''
      else if name = ''get-apr'' then ''Failed to retrieve protocols APR data.''
      else [])"

text \<open>The fixed part of the URL of the three tools that assemble a query string.\<close>

definition query_base :: "string \<Rightarrow> string" where
  "query_base name =
     (if name = ''listing-coins'' then ''https://pro-api.coinmarketcap.com/v1/cryptocurrency/listings/latest?''
      else if name = ''get-coin-info'' then ''https://pro-api.coinmarketcap.com/v2/cryptocurrency/info?''
      else if name = ''get-coin-quotes'' then ''https://pro-api.coinmarketcap.com/v2/cryptocurrency/quotes/latest?''
      else [])"

text \<open>
  What counts as a failed upstream call: \<open>client.get\<close> raised (network failure, timeout
  or anything else), the status is not 2xx, or the body does not parse.
\<close>

definition upstream_failure :: "error + response \<Rightarrow> bool" where
  "upstream_failure x =
     (case x of
        Inl e \<Rightarrow> True
      | Inr r \<Rightarrow> status_code r < 200 \<or> 299 < status_code r \<or> isl (json_body r))"

subsection \<open>Example worlds\<close>

definition cfg0 :: config where
  "cfg0 = \<lparr>API_KEY = ''cmc-key'', DEFI_API_KEY = ''expand-key''\<rparr>"

text \<open>Every request fails to connect; every request times out; every request is answered
  with the given status and body.\<close>

definition offline :: client where
  "offline req = Inl ConnectError"

definition timing_out :: client where
  "timing_out req = Inl TimeoutException"

definition answering :: "nat \<Rightarrow> error + pyval \<Rightarrow> client" where
  "answering status body req = Inr \<lparr>status_code = status, json_body = body\<rparr>"

section \<open>Decoding a query string\<close>











section \<open>Properties of the filter loop\<close>

lemmas call_defs = handle_call_tool_def make_coinmarketcap_request_def
  make_defillama_request_def make_expand_network_request_def requested_urls_def outcome_def
  Let_def

lemmas key_defs = listing_coins_keys_def coin_info_keys_def coin_quotes_keys_def
  protocol_tvl_keys_def apr_keys_def

lemma urlencode_Nil: "urlencode [] = []"
  by (simp add: urlencode_def)

lemma dict_getitem_present:
  "k \<in> fst ` set args \<Longrightarrow> \<exists>v. map_of args k = Some v \<and> dict_getitem args k = Inr v"
  by (cases "map_of args k") (auto simp: dict_getitem_def map_of_eq_None_iff)

lemma map_of_dict_setitem: "map_of (dict_setitem d k v) = (map_of d)(k \<mapsto> v)"
  by (induction d k v rule: dict_setitem.induct) auto

lemma distinct_dict_setitem:
  "distinct (map fst d) \<Longrightarrow> distinct (map fst (dict_setitem d k v))"
proof (induction d k v rule: dict_setitem.induct)
  case (1 key v)
  then show ?case by simp
next
  case (2 k w d key v)
  have "fst ` set (dict_setitem d key v) = insert key (fst ` set d)"
    using map_of_dict_setitem [of d key v]
    by (metis dom_map_of_conv_image_fst dom_fun_upd option.distinct(1))
  with 2 show ?case by auto
qed

text \<open>The loop never raises on the keys of the arguments; it adds to \<open>request_data\<close> the
  entries of the arguments whose key is in \<open>condi_keys\<close>, and nothing else.\<close>

lemma filter_loop_spec:
  "set keys \<subseteq> fst ` set args \<Longrightarrow>
   \<exists>rd'. filter_loop ck args keys rd = Inr rd'
     \<and> map_of rd' = map_of rd ++ (map_of args |` (set keys \<inter> set ck))
     \<and> (distinct (map fst rd) \<longrightarrow> distinct (map fst rd'))"
proof (induction keys arbitrary: rd)
  case Nil
  then show ?case by simp
next
  case (Cons key keys)
  show ?case
  proof (cases "key \<in> set ck")
    case False
    then have "(set (key # keys) \<inter> set ck) = (set keys \<inter> set ck)" by auto
    with False Cons show ?thesis by simp
  next
    case True
    from Cons.prems obtain v where v: "map_of args key = Some v" "dict_getitem args key = Inr v"
      using dict_getitem_present [of key args] by auto
    from Cons.prems have sub: "set keys \<subseteq> fst ` set args" by simp
    from Cons.IH [OF sub, of "dict_setitem rd key v"] obtain rd' where
      rd': "filter_loop ck args keys (dict_setitem rd key v) = Inr rd'"
        "map_of rd' = map_of (dict_setitem rd key v) ++ (map_of args |` (set keys \<inter> set ck))"
        "distinct (map fst (dict_setitem rd key v)) \<longrightarrow> distinct (map fst rd')"
      by blast
    have "map_of rd' = map_of rd ++ (map_of args |` (set (key # keys) \<inter> set ck))"
    proof
      fix x
      show "map_of rd' x = (map_of rd ++ (map_of args |` (set (key # keys) \<inter> set ck))) x"
        using True v(1)
        by (auto simp: rd'(2) map_of_dict_setitem map_add_def restrict_map_def
            split: option.splits)
    qed
    with rd' True v show ?thesis by (simp add: distinct_dict_setitem)
  qed
qed

lemma collect_request_data_spec:
  "\<exists>rd. collect_request_data ck (Some args) = Inr rd
     \<and> map_of rd = map_of args |` set ck
     \<and> set (dict_keys rd) = set (dict_keys args) \<inter> set ck
     \<and> distinct (dict_keys rd)"
proof -
  from filter_loop_spec [of "dict_keys args" args ck "[]"] obtain rd where
    rd: "filter_loop ck args (dict_keys args) [] = Inr rd"
      "map_of rd = map_of [] ++ (map_of args |` (set (dict_keys args) \<inter> set ck))"
      "distinct (map fst rd)"
    by (auto simp: dict_keys_def)
  have m: "map_of rd = map_of args |` set ck"
  proof
    fix x show "map_of rd x = (map_of args |` set ck) x"
      by (cases "x \<in> fst ` set args")
         (auto simp: rd(2) restrict_map_def dict_keys_def map_of_eq_None_iff [symmetric])
  qed
  have "dom (map_of rd) = dom (map_of args) \<inter> set ck"
    by (simp add: m)
  then have "set (dict_keys rd) = set (dict_keys args) \<inter> set ck"
    by (simp add: dom_map_of_conv_image_fst dict_keys_def)
  with rd m show ?thesis by (simp add: collect_request_data_def dict_keys_def)
qed

lemma map_of_filter_fst:
  "k \<in> S \<Longrightarrow> map_of (filter (\<lambda>kv. fst kv \<in> S) args) k = map_of args k"
  by (induction args) auto

lemma filter_loop_filter:
  "set keys \<subseteq> fst ` set args \<Longrightarrow>
   filter_loop ck args keys rd
     = filter_loop ck (filter (\<lambda>kv. fst kv \<in> set ck) args) (filter (\<lambda>k. k \<in> set ck) keys) rd"
proof (induction keys arbitrary: rd)
  case Nil
  then show ?case by simp
next
  case (Cons key keys)
  then show ?case
    by (auto simp: dict_getitem_def map_of_filter_fst split: option.splits)
qed

lemma collect_request_data_filter:
  "collect_request_data ck (Some (filter (\<lambda>kv. fst kv \<in> set ck) args))
     = collect_request_data ck (Some args)"
  using filter_loop_filter [of "dict_keys args" args ck "[]"]
  by (simp add: collect_request_data_def dict_keys_def filter_map comp_def)

lemma dict_setitem_fresh: "k \<notin> fst ` set d \<Longrightarrow> dict_setitem d k v = d @ [(k, v)]"
  by (induction d k v rule: dict_setitem.induct) auto

text \<open>On arguments with distinct keys, as every \<open>dict\<close> has, the loop keeps the selected
  entries in the order of the arguments.\<close>

lemma filter_loop_distinct:
  "distinct (map fst (pre @ suf)) \<Longrightarrow>
   filter_loop ck (pre @ suf) (map fst suf) (filter (\<lambda>kv. fst kv \<in> set ck) pre)
     = Inr (filter (\<lambda>kv. fst kv \<in> set ck) (pre @ suf))"
proof (induction suf arbitrary: pre)
  case Nil
  then show ?case by simp
next
  case (Cons kv suf)
  obtain k v where kv: "kv = (k, v)" by (cases kv)
  from Cons.prems have d: "distinct (map fst ((pre @ [kv]) @ suf))" by simp
  from Cons.prems have m: "map_of (pre @ kv # suf) k = Some v"
    unfolding kv by (intro map_of_is_SomeI) auto
  from Cons.prems have fresh: "k \<notin> fst ` set (filter (\<lambda>kv. fst kv \<in> set ck) pre)"
    unfolding kv by auto
  show ?case
  proof (cases "k \<in> set ck")
    case True
    then show ?thesis
      using Cons.IH [OF d] m fresh by (simp add: kv dict_getitem_def dict_setitem_fresh)
  next
    case False
    then show ?thesis
      using Cons.IH [OF d] by (simp add: kv)
  qed
qed

lemma collect_request_data_distinct:
  "distinct (dict_keys args) \<Longrightarrow>
   collect_request_data ck (Some args) = Inr (filter (\<lambda>kv. fst kv \<in> set ck) args)"
  using filter_loop_distinct [of "[]" args ck]
  by (simp add: collect_request_data_def dict_keys_def)

lemma get_json_failure: "upstream_failure (client req) \<Longrightarrow> get_json client req = PyNone"
  by (auto simp: get_json_def upstream_failure_def raise_for_status_def isl_def
      split: sum.splits)

lemma single_key_lookup:
  "\<exists>rd. collect_request_data [k] (Some args) = Inr rd
     \<and> dict_getitem rd k = dict_getitem args k"
proof -
  from collect_request_data_spec [of "[k]" args] obtain rd where
    rd: "collect_request_data [k] (Some args) = Inr rd" "map_of rd = map_of args |` set [k]"
    by blast
  have "dict_getitem rd k = dict_getitem args k"
    by (simp add: dict_getitem_def rd(2))
  with rd(1) show ?thesis by blast
qed

lemma dict_getitem_absent:
  "k \<notin> set (dict_keys args) \<Longrightarrow> dict_getitem args k = Inl (KeyError k)"
  by (simp add: dict_getitem_def dict_keys_def map_of_eq_None_iff [THEN iffD2])

lemma dict_getitem_some: "map_of args k = Some v \<Longrightarrow> dict_getitem args k = Inr v"
  by (simp add: dict_getitem_def)

lemma name_cases:
  obtains (lc) "name = ''listing-coins''" | (ci) "name = ''get-coin-info''"
    | (cq) "name = ''get-coin-quotes''" | (lp) "name = ''listing-protocols''"
    | (tvl) "name = ''get-protocol-tvl''" | (apr) "name = ''get-apr''"
    | (other) "name \<noteq> ''listing-coins''" "name \<noteq> ''get-coin-info''"
        "name \<noteq> ''get-coin-quotes''" "name \<noteq> ''listing-protocols''"
        "name \<noteq> ''get-protocol-tvl''" "name \<noteq> ''get-apr''"
  by blast

text \<open>The URL of a call does not depend on the keys nor on what the upstream answers.\<close>

lemma urls_independent:
  "requested_urls (handle_call_tool cfg client name arguments)
     = requested_urls (handle_call_tool cfg' client' name arguments)"
proof (cases name rule: name_cases)
  case lc
  then show ?thesis by (simp add: call_defs split: sum.splits)
next
  case ci
  then show ?thesis by (simp add: call_defs split: sum.splits)
next
  case cq
  then show ?thesis by (simp add: call_defs split: sum.splits)
next
  case lp
  then show ?thesis by (simp add: call_defs split: sum.splits)
next
  case tvl
  then show ?thesis by (simp add: call_defs split: sum.splits)
next
  case apr
  then show ?thesis by (simp add: call_defs split: sum.splits)
next
  case other
  then show ?thesis by (simp add: handle_call_tool_def)
qed

lemma query_urls_distinct:
  assumes "distinct (dict_keys args)"
    and "name \<in> {''listing-coins'', ''get-coin-info'', ''get-coin-quotes''}"
  shows "requested_urls (handle_call_tool cfg client name (Some args))
          = [query_base name @ urlencode (filter (\<lambda>kv. fst kv \<in> set (whitelist name)) args)]"
  using assms
  by (auto simp: call_defs whitelist_def query_base_def API_BASE_def
      collect_request_data_distinct)

lemmas eval_defs = urlencode_def quote_plus_def quote_def utf8_encode_def utf8_char_def
  quote_byte_def ALWAYS_SAFE_def str_int_def str_nat.simps digit_chars_def hex2_def
  hex_upper_def API_BASE_def collect_request_data_def dict_keys_def dict_getitem_def key_defs

section \<open>Properties of the encoding\<close>







































section \<open>Properties of the dispatch\<close>

text \<open>The filter never raises, and the unknown-tool error is raised exactly for the names
  outside the six branches; a name that the listing does not return is among them.\<close>

lemma collect_request_data_total: "\<exists>rd. collect_request_data ck arguments = Inr rd"
proof (cases arguments)
  case None
  then show ?thesis by (simp add: collect_request_data_def)
next
  case (Some args)
  with collect_request_data_spec [of ck args] show ?thesis by blast
qed

lemma unlisted_name_raises:
  "name \<notin> set (map tool_name handle_list_tools) \<Longrightarrow>
   handle_call_tool cfg client name arguments = ([], Inl (ValueError (''Unknown tool: '' @ name)))"
  by (simp add: handle_list_tools_def handle_call_tool_def)

lemma unknown_tool_iff:
  "(\<exists>m. outcome (handle_call_tool cfg client name arguments) = Inl (ValueError m))
   \<longleftrightarrow> name \<notin> {''listing-coins'', ''get-coin-info'', ''get-coin-quotes'', ''listing-protocols'',
        ''get-protocol-tvl'', ''get-apr''}"
proof -
  obtain rd where rd: "collect_request_data (whitelist name) arguments = Inr rd"
    using collect_request_data_total by blast
  show ?thesis
  proof (cases name rule: name_cases)
    case lc
    with rd show ?thesis by (simp add: call_defs whitelist_def)
  next
    case ci
    with rd show ?thesis by (simp add: call_defs whitelist_def)
  next
    case cq
    with rd show ?thesis by (simp add: call_defs whitelist_def)
  next
    case lp
    then show ?thesis by (simp add: call_defs)
  next
    case tvl
    with rd show ?thesis
      by (simp add: call_defs whitelist_def dict_getitem_def split: option.splits)
  next
    case apr
    with rd show ?thesis
      by (simp add: call_defs whitelist_def dict_getitem_def split: option.splits)
  next
    case other
    then show ?thesis by (simp add: handle_call_tool_def outcome_def)
  qed
qed

section \<open>The claims\<close>

text \<open>
  C2. The claim: a call raises the unknown-tool error exactly for the names that the
  discovery listing does not return, so every listed name, \<open>get-protocols\<close> included, can
  be dispatched. The code does not do this: \<open>handle_list_tools\<close> lists \<open>get-protocols\<close>,
  and \<open>handle_call_tool\<close> has no branch for it, so the call raises
  \<open>ValueError("Unknown tool: get-protocols")\<close> with no request sent.
\<close>

theorem get_protocols_listed_not_dispatched:
  "''get-protocols'' \<in> set (map tool_name handle_list_tools)
   \<and> handle_call_tool cfg0 offline ''get-protocols'' (Some [])
       = ([], Inl (ValueError ''Unknown tool: get-protocols''))"
  by (simp add: handle_list_tools_def handle_call_tool_def)

text \<open>
  C5. For each of the three client functions and every URL: when the request fails
  (\<open>client.get\<close> raises for a network failure, a timeout or anything else, or the status
  is not 2xx, or the body does not parse), the function returns \<open>None\<close>. The result
  carries no error, so no exception leaves the function, and the causes give the same
  result.
\<close>

theorem client_failure_gives_None:
  assumes "\<forall>req. req_url req = url \<longrightarrow> upstream_failure (client req)"
  shows "snd (make_coinmarketcap_request cfg client url) = PyNone
    \<and> snd (make_defillama_request cfg client url) = PyNone
    \<and> snd (make_expand_network_request cfg client url) = PyNone"
  using assms
  by (simp add: make_coinmarketcap_request_def make_defillama_request_def
      make_expand_network_request_def Let_def get_json_failure)

text \<open>The theorem at a world where every request times out.\<close>

theorem client_failure_gives_None_witness:
  "upstream_failure (timing_out \<lparr>req_url = ''u'', req_headers = [], req_timeout = 10\<rparr>)
   \<and> snd (make_coinmarketcap_request cfg0 timing_out ''u'') = PyNone
   \<and> snd (make_defillama_request cfg0 timing_out ''u'') = PyNone
   \<and> snd (make_expand_network_request cfg0 timing_out ''u'') = PyNone"
proof -
  have h: "\<forall>req. req_url req = ''u'' \<longrightarrow> upstream_failure (timing_out req)"
    by (simp add: upstream_failure_def timing_out_def)
  show ?thesis using h client_failure_gives_None [OF h, of cfg0] by simp
qed

text \<open>
  C6. The claim: on a failed upstream call every one of the six tools returns one text
  item of the form \<open>Failed to retrieve <subject> data\<close>. The code does not do this for
  \<open>get-apr\<close>: its text ends in a full stop, \<open>Failed to retrieve protocols APR data.\<close>,
  where the five other branches have none.
\<close>

theorem get_apr_failure_text:
  "outcome (handle_call_tool cfg0 offline ''get-apr'' (Some [(''liquidStakingId'', PyStr ''123'')]))
     = Inr [TextContent ''text'' ''Failed to retrieve protocols APR data.'']"
  by (simp add: call_defs collect_request_data_def dict_keys_def key_defs dict_getitem_def
      get_json_def offline_def)

text \<open>
  C8. \<open>get-protocol-tvl\<close> with \<open>{protocol: "aave"}\<close> requests \<open>https://api.llama.fi/tvl/aave\<close>,
  \<open>get-apr\<close> with \<open>{liquidStakingId: "123"}\<close> requests the URL that ends in
  \<open>/liquidstaking/getapr?liquidStakingId=123\<close>, and \<open>listing-protocols\<close> requests
  \<open>https://api.llama.fi/protocols\<close> whatever its arguments are.
\<close>

theorem catalogue_url_shapes:
  "requested_urls (handle_call_tool cfg client ''get-protocol-tvl''
       (Some [(''protocol'', PyStr ''aave'')])) = [''https://api.llama.fi/tvl/aave'']
   \<and> requested_urls (handle_call_tool cfg client ''get-apr''
       (Some [(''liquidStakingId'', PyStr ''123'')]))
       = [''https://api.expand.network/liquidstaking/getapr?liquidStakingId=123'']
   \<and> requested_urls (handle_call_tool cfg client ''listing-protocols'' arguments)
       = [''https://api.llama.fi/protocols'']"
  by (simp add: call_defs collect_request_data_def dict_keys_def key_defs dict_getitem_def)

text \<open>
  C10. For \<open>listing-coins\<close>, \<open>get-coin-info\<close> and \<open>get-coin-quotes\<close>, a call with
  \<open>None\<close> or with the empty mapping raises nothing: it sends one request, whose URL is
  the fixed base path followed by \<open>?\<close> and an empty query string, and returns one text
  item.
\<close>

theorem empty_arguments_query_url:
  "requested_urls (handle_call_tool cfg client ''listing-coins'' None)
     = [''https://pro-api.coinmarketcap.com/v1/cryptocurrency/listings/latest?'']
   \<and> requested_urls (handle_call_tool cfg client ''listing-coins'' (Some []))
     = [''https://pro-api.coinmarketcap.com/v1/cryptocurrency/listings/latest?'']
   \<and> requested_urls (handle_call_tool cfg client ''get-coin-info'' None)
     = [''https://pro-api.coinmarketcap.com/v2/cryptocurrency/info?'']
   \<and> requested_urls (handle_call_tool cfg client ''get-coin-info'' (Some []))
     = [''https://pro-api.coinmarketcap.com/v2/cryptocurrency/info?'']
   \<and> requested_urls (handle_call_tool cfg client ''get-coin-quotes'' None)
     = [''https://pro-api.coinmarketcap.com/v2/cryptocurrency/quotes/latest?'']
   \<and> requested_urls (handle_call_tool cfg client ''get-coin-quotes'' (Some []))
     = [''https://pro-api.coinmarketcap.com/v2/cryptocurrency/quotes/latest?'']
   \<and> (\<exists>t. outcome (handle_call_tool cfg client ''listing-coins'' None)
          = Inr [TextContent ''text'' t])
   \<and> (\<exists>t. outcome (handle_call_tool cfg client ''listing-coins'' (Some []))
          = Inr [TextContent ''text'' t])
   \<and> (\<exists>t. outcome (handle_call_tool cfg client ''get-coin-info'' None)
          = Inr [TextContent ''text'' t])
   \<and> (\<exists>t. outcome (handle_call_tool cfg client ''get-coin-info'' (Some []))
          = Inr [TextContent ''text'' t])
   \<and> (\<exists>t. outcome (handle_call_tool cfg client ''get-coin-quotes'' None)
          = Inr [TextContent ''text'' t])
   \<and> (\<exists>t. outcome (handle_call_tool cfg client ''get-coin-quotes'' (Some []))
          = Inr [TextContent ''text'' t])"
  by (simp add: call_defs collect_request_data_def dict_keys_def urlencode_Nil API_BASE_def)

text \<open>
  C1, as the code has it. For \<open>get-protocol-tvl\<close> (key \<open>protocol\<close>) and \<open>get-apr\<close> (key
  \<open>liquidStakingId\<close>) nothing checks the required key, but when the key is absent from the
  arguments, or the arguments are \<open>None\<close>, the lookup \<open>request_data[key]\<close> that builds the
  URL raises \<open>KeyError\<close>: no URL is produced and no request is sent. When the key is
  present, whatever its value, one request is sent, to the URL built from \<open>str(value)\<close>.
\<close>

theorem missing_required_key_raises:
  "(''protocol'' \<notin> set (dict_keys args) \<longrightarrow>
      handle_call_tool cfg client ''get-protocol-tvl'' (Some args)
        = ([], Inl (KeyError ''protocol'')))
   \<and> handle_call_tool cfg client ''get-protocol-tvl'' None = ([], Inl (KeyError ''protocol''))
   \<and> (''liquidStakingId'' \<notin> set (dict_keys args) \<longrightarrow>
      handle_call_tool cfg client ''get-apr'' (Some args)
        = ([], Inl (KeyError ''liquidStakingId'')))
   \<and> handle_call_tool cfg client ''get-apr'' None = ([], Inl (KeyError ''liquidStakingId''))
   \<and> (map_of args' ''protocol'' = Some v \<longrightarrow>
      requested_urls (handle_call_tool cfg client ''get-protocol-tvl'' (Some args'))
        = [''https://api.llama.fi/tvl/'' @ py_str v])
   \<and> (map_of args' ''liquidStakingId'' = Some w \<longrightarrow>
      requested_urls (handle_call_tool cfg client ''get-apr'' (Some args'))
        = [''https://api.expand.network/liquidstaking/getapr?liquidStakingId='' @ py_str w])"
proof -
  obtain rd where rd: "collect_request_data [''protocol''] (Some args) = Inr rd"
      "dict_getitem rd ''protocol'' = dict_getitem args ''protocol''"
    using single_key_lookup by blast
  obtain rd2 where rd2: "collect_request_data [''liquidStakingId''] (Some args) = Inr rd2"
      "dict_getitem rd2 ''liquidStakingId'' = dict_getitem args ''liquidStakingId''"
    using single_key_lookup by blast
  obtain rd3 where rd3: "collect_request_data [''protocol''] (Some args') = Inr rd3"
      "dict_getitem rd3 ''protocol'' = dict_getitem args' ''protocol''"
    using single_key_lookup by blast
  obtain rd4 where rd4: "collect_request_data [''liquidStakingId''] (Some args') = Inr rd4"
      "dict_getitem rd4 ''liquidStakingId'' = dict_getitem args' ''liquidStakingId''"
    using single_key_lookup by blast
  have a: "''protocol'' \<notin> set (dict_keys args) \<longrightarrow>
      handle_call_tool cfg client ''get-protocol-tvl'' (Some args)
        = ([], Inl (KeyError ''protocol''))"
    by (simp add: handle_call_tool_def protocol_tvl_keys_def rd dict_getitem_absent)
  have b: "handle_call_tool cfg client ''get-protocol-tvl'' None
      = ([], Inl (KeyError ''protocol''))"
    by (simp add: handle_call_tool_def collect_request_data_def dict_getitem_def)
  have c: "''liquidStakingId'' \<notin> set (dict_keys args) \<longrightarrow>
      handle_call_tool cfg client ''get-apr'' (Some args)
        = ([], Inl (KeyError ''liquidStakingId''))"
    by (simp add: handle_call_tool_def apr_keys_def rd2 dict_getitem_absent)
  have d: "handle_call_tool cfg client ''get-apr'' None
      = ([], Inl (KeyError ''liquidStakingId''))"
    by (simp add: handle_call_tool_def collect_request_data_def dict_getitem_def)
  have e: "map_of args' ''protocol'' = Some v \<longrightarrow>
      requested_urls (handle_call_tool cfg client ''get-protocol-tvl'' (Some args'))
        = [''https://api.llama.fi/tvl/'' @ py_str v]"
    by (simp add: call_defs protocol_tvl_keys_def rd3 dict_getitem_some)
  have f: "map_of args' ''liquidStakingId'' = Some w \<longrightarrow>
      requested_urls (handle_call_tool cfg client ''get-apr'' (Some args'))
        = [''https://api.expand.network/liquidstaking/getapr?liquidStakingId='' @ py_str w]"
    by (simp add: call_defs apr_keys_def rd4 dict_getitem_some)
  from a b c d e f show ?thesis by blast
qed

text \<open>The theorem at arguments without the two keys, and at arguments with both.\<close>

theorem missing_required_key_raises_witness:
  "handle_call_tool cfg0 offline ''get-protocol-tvl'' (Some [(''slug'', PyStr ''aave'')])
      = ([], Inl (KeyError ''protocol''))
   \<and> handle_call_tool cfg0 offline ''get-apr'' (Some [(''slug'', PyStr ''aave'')])
      = ([], Inl (KeyError ''liquidStakingId''))
   \<and> requested_urls (handle_call_tool cfg0 offline ''get-protocol-tvl''
        (Some [(''protocol'', PyStr ''a/b''), (''liquidStakingId'', PyInt 7)]))
      = [''https://api.llama.fi/tvl/a/b'']
   \<and> requested_urls (handle_call_tool cfg0 offline ''get-apr''
        (Some [(''protocol'', PyStr ''a/b''), (''liquidStakingId'', PyInt 7)]))
      = [''https://api.expand.network/liquidstaking/getapr?liquidStakingId=7'']"
  using missing_required_key_raises [where args = "[(''slug'', PyStr ''aave'')]"
      and cfg = cfg0 and client = offline
      and args' = "[(''protocol'', PyStr ''a/b''), (''liquidStakingId'', PyInt 7)]"
      and v = "PyStr ''a/b''" and w = "PyInt 7"]
  by (simp add: dict_keys_def str_int_def str_nat.simps digit_chars_def)

text \<open>The claim as written fails: without the key the call raises before any request,
  also when the upstream would answer.\<close>

theorem missing_required_key_counterexample:
  "handle_call_tool cfg0 (answering 200 (Inr (PyInt 1))) ''get-protocol-tvl'' (Some [])
     = ([], Inl (KeyError ''protocol''))
   \<and> handle_call_tool cfg0 (answering 200 (Inr (PyInt 1))) ''get-apr'' (Some [])
     = ([], Inl (KeyError ''liquidStakingId''))"
  by (simp add: call_defs collect_request_data_def dict_keys_def key_defs dict_getitem_def)

text \<open>
  C3, as the code has it. When a call sends its request and the upstream yields the
  value \<open>v\<close>, the call returns exactly one text item; its text is \<open>json.dumps(v)\<close>, the
  whole payload, when \<open>v\<close> is truthy, and the failure message of the tool when \<open>v\<close> is
  falsy (\<open>None\<close>, \<open>false\<close>, zero, the empty string, the empty array, the empty object).
\<close>

theorem truthy_payload_serialised:
  assumes sent: "fst (handle_call_tool cfg client name arguments) = [req]"
    and got: "get_json client req = v"
  shows "outcome (handle_call_tool cfg client name arguments)
     = Inr [TextContent ''text'' (if truthy v then json_dumps v else failure_message name)]"
proof (cases name rule: name_cases)
  case lc
  with sent got show ?thesis
    by (auto simp: call_defs failure_message_def split: sum.splits)
next
  case ci
  with sent got show ?thesis
    by (auto simp: call_defs failure_message_def split: sum.splits)
next
  case cq
  with sent got show ?thesis
    by (auto simp: call_defs failure_message_def split: sum.splits)
next
  case lp
  with sent got show ?thesis
    by (auto simp: call_defs failure_message_def split: sum.splits)
next
  case tvl
  with sent got show ?thesis
    by (auto simp: call_defs failure_message_def split: sum.splits)
next
  case apr
  with sent got show ?thesis
    by (auto simp: call_defs failure_message_def split: sum.splits)
next
  case other
  with sent show ?thesis
    by (simp add: handle_call_tool_def)
qed

text \<open>The theorem at \<open>listing-coins\<close> with \<open>{limit: 5}\<close> and the payload \<open>[1, 2]\<close>.\<close>

theorem truthy_payload_serialised_witness:
  "outcome (handle_call_tool cfg0 (answering 200 (Inr (PyList [PyInt 1, PyInt 2])))
       ''listing-coins'' (Some [(''limit'', PyInt 5)]))
     = Inr [TextContent ''text'' ''[1, 2]'']"
proof -
  have sent: "fst (handle_call_tool cfg0 (answering 200 (Inr (PyList [PyInt 1, PyInt 2])))
       ''listing-coins'' (Some [(''limit'', PyInt 5)]))
     = [\<lparr>req_url = ''https://pro-api.coinmarketcap.com/v1/cryptocurrency/listings/latest?limit=5'',
         req_headers = [(''Accepts'', ''application/json''), (''X-CMC_PRO_API_KEY'', ''cmc-key'')],
         req_timeout = 10\<rparr>]"
    by (simp add: call_defs eval_defs cfg0_def)
  have got: "get_json (answering 200 (Inr (PyList [PyInt 1, PyInt 2])))
       \<lparr>req_url = ''https://pro-api.coinmarketcap.com/v1/cryptocurrency/listings/latest?limit=5'',
         req_headers = [(''Accepts'', ''application/json''), (''X-CMC_PRO_API_KEY'', ''cmc-key'')],
         req_timeout = 10\<rparr>
     = PyList [PyInt 1, PyInt 2]"
    by (simp add: get_json_def answering_def raise_for_status_def)
  have dumps: "json_dumps (PyList [PyInt 1, PyInt 2]) = ''[1, 2]''"
    by (simp add: eval_defs)
  from truthy_payload_serialised [OF sent got] dumps show ?thesis by simp
qed

text \<open>The claim as written fails: an upstream that answers 200 with the empty object, the
  empty array, zero, the empty string or \<open>false\<close> gets the failure message, not the
  serialisation of the payload.\<close>

theorem falsy_payload_counterexample:
  "outcome (handle_call_tool cfg0 (answering 200 (Inr (PyDict []))) ''listing-protocols'' None)
     = Inr [TextContent ''text'' ''Failed to retrieve protocols data'']
   \<and> json_dumps (PyDict []) = ''{}''
   \<and> outcome (handle_call_tool cfg0 (answering 200 (Inr (PyList []))) ''listing-protocols'' None)
     = Inr [TextContent ''text'' ''Failed to retrieve protocols data'']
   \<and> json_dumps (PyList []) = ''[]''
   \<and> outcome (handle_call_tool cfg0 (answering 200 (Inr (PyInt 0))) ''listing-protocols'' None)
     = Inr [TextContent ''text'' ''Failed to retrieve protocols data'']
   \<and> json_dumps (PyInt 0) = ''0''
   \<and> outcome (handle_call_tool cfg0 (answering 200 (Inr (PyBool False))) ''listing-protocols'' None)
     = Inr [TextContent ''text'' ''Failed to retrieve protocols data'']
   \<and> json_dumps (PyBool False) = ''false''"
  by (simp add: call_defs get_json_def answering_def raise_for_status_def str_int_def
      str_nat.simps digit_chars_def)

text \<open>
  C4. For every tool and every arguments mapping, the keys outside the whitelist of the
  tool never reach the URL: the call on the arguments is the call on the arguments with
  those keys removed. The filter raises nothing and keeps exactly the keys that are both
  in the arguments and in the whitelist, each with its value; the URL of a query-string
  tool is built from the filtered mapping alone.
\<close>

theorem unknown_keys_never_reach_url:
  "handle_call_tool cfg client name (Some args)
     = handle_call_tool cfg client name
         (Some (filter (\<lambda>kv. fst kv \<in> set (whitelist name)) args))
   \<and> (\<exists>rd. collect_request_data (whitelist name) (Some args) = Inr rd
         \<and> set (dict_keys rd) = set (dict_keys args) \<inter> set (whitelist name)
         \<and> map_of rd = map_of args |` set (whitelist name)
         \<and> (name \<in> {''listing-coins'', ''get-coin-info'', ''get-coin-quotes''} \<longrightarrow>
              requested_urls (handle_call_tool cfg client name (Some args))
                = [query_base name @ urlencode rd]))"
proof -
  have a: "handle_call_tool cfg client name (Some args)
     = handle_call_tool cfg client name
         (Some (filter (\<lambda>kv. fst kv \<in> set (whitelist name)) args))"
    by (simp add: handle_call_tool_def whitelist_def collect_request_data_filter)
  from collect_request_data_spec [of "whitelist name" args] obtain rd where
    rd: "collect_request_data (whitelist name) (Some args) = Inr rd"
      "map_of rd = map_of args |` set (whitelist name)"
      "set (dict_keys rd) = set (dict_keys args) \<inter> set (whitelist name)"
    by blast
  have b: "name \<in> {''listing-coins'', ''get-coin-info'', ''get-coin-quotes''} \<longrightarrow>
      requested_urls (handle_call_tool cfg client name (Some args))
        = [query_base name @ urlencode rd]"
    using rd(1) by (auto simp: call_defs whitelist_def query_base_def API_BASE_def)
  from a rd b show ?thesis by blast
qed

text \<open>The theorem at \<open>get-coin-quotes\<close> with \<open>{symbol: "BTC", bogus: "x"}\<close>.\<close>

theorem unknown_keys_never_reach_url_witness:
  "handle_call_tool cfg0 offline ''get-coin-quotes''
       (Some [(''symbol'', PyStr ''BTC''), (''bogus'', PyStr ''x'')])
     = handle_call_tool cfg0 offline ''get-coin-quotes'' (Some [(''symbol'', PyStr ''BTC'')])
   \<and> requested_urls (handle_call_tool cfg0 offline ''get-coin-quotes''
       (Some [(''symbol'', PyStr ''BTC''), (''bogus'', PyStr ''x'')]))
     = [''https://pro-api.coinmarketcap.com/v2/cryptocurrency/quotes/latest?symbol=BTC'']"
proof -
  have "handle_call_tool cfg0 offline ''get-coin-quotes''
       (Some [(''symbol'', PyStr ''BTC''), (''bogus'', PyStr ''x'')])
     = handle_call_tool cfg0 offline ''get-coin-quotes''
         (Some (filter (\<lambda>kv. fst kv \<in> set (whitelist ''get-coin-quotes''))
            [(''symbol'', PyStr ''BTC''), (''bogus'', PyStr ''x'')]))"
    using unknown_keys_never_reach_url [of cfg0 offline "''get-coin-quotes''"
        "[(''symbol'', PyStr ''BTC''), (''bogus'', PyStr ''x'')]"]
    by blast
  then have first: "handle_call_tool cfg0 offline ''get-coin-quotes''
       (Some [(''symbol'', PyStr ''BTC''), (''bogus'', PyStr ''x'')])
     = handle_call_tool cfg0 offline ''get-coin-quotes'' (Some [(''symbol'', PyStr ''BTC'')])"
    by (simp add: whitelist_def coin_quotes_keys_def)
  have "requested_urls (handle_call_tool cfg0 offline ''get-coin-quotes''
       (Some [(''symbol'', PyStr ''BTC'')]))
     = [''https://pro-api.coinmarketcap.com/v2/cryptocurrency/quotes/latest?symbol=BTC'']"
    by (simp add: call_defs eval_defs)
  with first show ?thesis by simp
qed

text \<open>
  C7. The URL that a call requests is a function of the tool name and the arguments
  alone: two calls with the same name and arguments request the same URL, whatever the
  keys and the upstream are. The order of the query parameters is fixed as well: on
  arguments with distinct keys, a query-string tool writes the whitelisted entries in
  the order of the arguments.
\<close>

theorem url_deterministic:
  "requested_urls (handle_call_tool cfg client name arguments)
     = requested_urls (handle_call_tool cfg' client' name arguments)
   \<and> (distinct (dict_keys args)
        \<and> name \<in> {''listing-coins'', ''get-coin-info'', ''get-coin-quotes''} \<longrightarrow>
        requested_urls (handle_call_tool cfg client name (Some args))
          = [query_base name
               @ urlencode (filter (\<lambda>kv. fst kv \<in> set (whitelist name)) args)])"
  using urls_independent [of cfg client name arguments cfg' client']
    query_urls_distinct [of args name cfg client]
  by blast

text \<open>The theorem at \<open>get-coin-info\<close> with \<open>{slug: "bitcoin", bogus: 1, aux: "logo"}\<close>.\<close>

theorem url_deterministic_witness:
  "requested_urls (handle_call_tool cfg0 offline ''get-coin-info''
       (Some [(''slug'', PyStr ''bitcoin''), (''bogus'', PyInt 1), (''aux'', PyStr ''logo'')]))
     = [''https://pro-api.coinmarketcap.com/v2/cryptocurrency/info?slug=bitcoin&aux=logo'']
   \<and> requested_urls (handle_call_tool cfg0 timing_out ''get-coin-info''
       (Some [(''slug'', PyStr ''bitcoin''), (''bogus'', PyInt 1), (''aux'', PyStr ''logo'')]))
     = [''https://pro-api.coinmarketcap.com/v2/cryptocurrency/info?slug=bitcoin&aux=logo'']"
proof -
  let ?args = "[(''slug'', PyStr ''bitcoin''), (''bogus'', PyInt 1), (''aux'', PyStr ''logo'')]"
  have d: "distinct (dict_keys ?args)
    \<and> ''get-coin-info'' \<in> {''listing-coins'', ''get-coin-info'', ''get-coin-quotes''}"
    by (simp add: dict_keys_def)
  note inst = url_deterministic [of cfg0 offline "''get-coin-info''" "Some ?args"
      cfg0 timing_out ?args]
  from inst d have u: "requested_urls (handle_call_tool cfg0 offline ''get-coin-info'' (Some ?args))
      = [query_base ''get-coin-info''
           @ urlencode (filter (\<lambda>kv. fst kv \<in> set (whitelist ''get-coin-info'')) ?args)]"
    by blast
  have v: "query_base ''get-coin-info''
           @ urlencode (filter (\<lambda>kv. fst kv \<in> set (whitelist ''get-coin-info'')) ?args)
      = ''https://pro-api.coinmarketcap.com/v2/cryptocurrency/info?slug=bitcoin&aux=logo''"
    by (simp add: whitelist_def query_base_def coin_info_keys_def urlencode_def quote_plus_def
        quote_def utf8_encode_def utf8_char_def quote_byte_def ALWAYS_SAFE_def)
  from inst have e: "requested_urls (handle_call_tool cfg0 timing_out ''get-coin-info'' (Some ?args))
      = requested_urls (handle_call_tool cfg0 offline ''get-coin-info'' (Some ?args))"
    by simp
  from u v e show ?thesis by simp
qed



end
